theory Spec2Isabelle
  imports Main
begin

section \<open>Data model\<close>

text \<open>
  The embedding follows \<^verbatim>\<open>torchtune/models/gemma/transformer.py\<close>
  (class \<^verbatim>\<open>GemmaTransformerDecoder\<close>). Exceptions are values of type \<open>error\<close>;
  every operation that mutates the decoder returns the decoder after the call, also when
  it raises, since a Python exception leaves the mutations done so far in place.
\<close>

datatype dtype = Float16 | BFloat16 | Float32 | Float64

datatype error = ValueError string | IndexError | RuntimeError

text \<open>
  A hidden state or logits tensor of rank 3: its dtype, its shape \<open>[b, s, d]\<close> and its
  elements \<open>vals ! i ! j ! k\<close>. The shape is stored, as a tensor stores it, so that an
  empty batch or an empty sequence still has a sequence length and a width.
\<close>

record 'a tensor =
  t_dtype :: dtype
  dim_b :: nat
  dim_s :: nat
  dim_d :: nat
  vals :: "'a list list list"

definition wf_tensor :: "'a tensor \<Rightarrow> bool" where
  "wf_tensor h \<longleftrightarrow>
     length (vals h) = dim_b h \<and>
     list_all (\<lambda>m. length m = dim_s h \<and> list_all (\<lambda>r. length r = dim_d h) m) (vals h)"

text \<open>The token ids, a rank-2 integer tensor of shape \<open>[b, s]\<close>.\<close>

record tokens =
  tok_b :: nat
  tok_s :: nat
  ids :: "int list list"

text \<open>
  Masks and position tensors of any rank: \<open>input_pos\<close> is documented with shape
  \<open>[b, s]\<close> and used with shape \<open>[input_pos_len]\<close> (the comment at line 196).
\<close>

datatype 'x ndarray = Scalar 'x | Axis "'x ndarray list"

fun elems :: "'x ndarray \<Rightarrow> 'x list" where
  "elems (Scalar x) = [x]"
| "elems (Axis xs) = concat (map elems xs)"

text \<open>\<^verbatim>\<open>nn.Embedding\<close>: the weight matrix of shape \<open>[num_embeddings, embedding_dim]\<close>.\<close>

record 'a embedding_table =
  num_embeddings :: nat
  embedding_dim :: nat
  w_dtype :: dtype
  weight :: "'a list list"

definition wf_embedding :: "'a embedding_table \<Rightarrow> bool" where
  "wf_embedding E \<longleftrightarrow>
     length (weight E) = num_embeddings E \<and>
     list_all (\<lambda>r. length r = embedding_dim E) (weight E)"

text \<open>
  Modelled from the spec: the decoder layer (\<^verbatim>\<open>TransformerSelfAttentionLayer\<close>, in
  \<^verbatim>\<open>torchtune/modules/transformer.py\<close>, a module this theory does not embed) is an opaque
  unit with a boolean cache-enabled query and a private state (its parameters and its
  key/value buffers).
\<close>

record 'c layer =
  cache_enabled :: bool
  own_state :: 'c

type_synonym mask = "bool ndarray"
type_synonym positions = "int ndarray"
type_synonym call = "mask option \<times> positions option"

text \<open>
  The external collaborators, as parameters: the element arithmetic of the tensor library
  (\<open>dot_product\<close> is the inner product that \<^verbatim>\<open>F.linear\<close> computes for one output element
  in a given dtype, \<open>to_float32\<close> the element conversion of \<^verbatim>\<open>.float()\<close>,
  \<open>mul_sqrt dt d x\<close> the product of \<open>x\<close> with \<^verbatim>\<open>torch.tensor(d**0.5, dtype=dt)\<close>),
  the final normalisation module, the forward pass of a layer and its cache allocation.
\<close>

record ('a, 'c) env =
  dot_product :: "dtype \<Rightarrow> 'a list \<Rightarrow> 'a list \<Rightarrow> 'a"
  to_float32 :: "dtype \<Rightarrow> 'a \<Rightarrow> 'a"
  mul_sqrt :: "dtype \<Rightarrow> nat \<Rightarrow> 'a \<Rightarrow> 'a"
  final_norm :: "'a tensor \<Rightarrow> error + 'a tensor"
  attend :: "bool \<Rightarrow> 'c \<Rightarrow> 'a tensor \<Rightarrow> mask option \<Rightarrow> positions option
               \<Rightarrow> (error + 'a tensor) \<times> 'c"
  alloc_cache :: "'c \<Rightarrow> int \<Rightarrow> dtype \<Rightarrow> int option \<Rightarrow> int option \<Rightarrow> error + 'c"

record ('a, 'c) decoder =
  tok_embeddings :: "'a embedding_table"
  layers :: "'c layer list"
  max_seq_len :: int
  num_heads :: int
  head_dim :: int
  causal_mask :: "bool list list option"
  norm_embeddings :: bool
  num_output_chunks :: int
  encoder_max_seq_len :: "int option"
  decoder_max_seq_len :: "int option"

text \<open>What a call leaves behind: its result or exception, the decoder after the call, and
  the arguments \<open>(mask, input_pos)\<close> with which it invoked the layers, in order.\<close>

record ('r, 'a, 'c) run =
  outcome :: "error + 'r"
  after :: "('a, 'c) decoder"
  calls :: "call list"

datatype 'a projected = Logits "'a tensor" | Chunks "'a tensor list"

section \<open>Construction and cache lifecycle\<close>

text \<open>
  Modelled from the spec: \<^verbatim>\<open>_get_clones\<close> (in \<^verbatim>\<open>torchtune/modules/transformer.py\<close>)
  replicates one layer instance \<open>n\<close> times, each copy owning its own state.
\<close>

definition get_clones :: "'c layer \<Rightarrow> int \<Rightarrow> 'c layer list" where
  "get_clones l n = replicate (nat n) l"

definition init_decoder ::
  "'a embedding_table \<Rightarrow> 'c layer \<Rightarrow> int \<Rightarrow> int \<Rightarrow> int \<Rightarrow> int \<Rightarrow> bool \<Rightarrow> ('a, 'c) decoder" where
  "init_decoder E l n_layers msl n_heads hdim norm_emb =
     \<lparr>tok_embeddings = E, layers = get_clones l n_layers, max_seq_len = msl,
      num_heads = n_heads, head_dim = hdim, causal_mask = None,
      norm_embeddings = norm_emb, num_output_chunks = 0,
      encoder_max_seq_len = None, decoder_max_seq_len = None\<rparr>"

text \<open>\<^verbatim>\<open>self.layers[0].cache_enabled\<close>: indexing an empty module list raises.\<close>

definition caches_are_setup :: "('a, 'c) decoder \<Rightarrow> error + bool" where
  "caches_are_setup d =
     (case layers d of [] \<Rightarrow> Inl IndexError | l # _ \<Rightarrow> Inr (cache_enabled l))"

definition set_num_output_chunks :: "('a, 'c) decoder \<Rightarrow> int \<Rightarrow> ('a, 'c) decoder" where
  "set_num_output_chunks d n = d\<lparr>num_output_chunks := n\<rparr>"

text \<open>
  Modelled from the spec: the cache-setup routine of a layer allocates its buffers for
  the given batch size, dtype and maximum lengths and, when that succeeds, reports the
  cache as enabled.
\<close>

definition layer_setup_caches ::
  "('a, 'c) env \<Rightarrow> 'c layer \<Rightarrow> int \<Rightarrow> dtype \<Rightarrow> int option \<Rightarrow> int option
     \<Rightarrow> error + 'c layer" where
  "layer_setup_caches env l batch_size dty enc dec =
     (case alloc_cache env (own_state l) batch_size dty enc dec of
        Inl e \<Rightarrow> Inl e
      | Inr c \<Rightarrow> Inr \<lparr>cache_enabled = True, own_state = c\<rparr>)"

text \<open>The loop of lines 106-112: a layer that raises leaves the earlier ones set up.\<close>

fun setup_layers ::
  "('a, 'c) env \<Rightarrow> 'c layer list \<Rightarrow> int \<Rightarrow> dtype \<Rightarrow> int option \<Rightarrow> int option
     \<Rightarrow> error option \<times> 'c layer list" where
  "setup_layers env [] batch_size dty enc dec = (None, [])"
| "setup_layers env (l # ls) batch_size dty enc dec =
     (case layer_setup_caches env l batch_size dty enc dec of
        Inl e \<Rightarrow> (Some e, l # ls)
      | Inr l' \<Rightarrow>
          (case setup_layers env ls batch_size dty enc dec of
             (r, ls') \<Rightarrow> (r, l' # ls')))"

text \<open>\<^verbatim>\<open>torch.ones(r, c, dtype=torch.bool)\<close> and \<^verbatim>\<open>torch.tril\<close>: the entries above the
  diagonal are cleared.\<close>

definition ones :: "nat \<Rightarrow> nat \<Rightarrow> bool list list" where
  "ones r c = replicate r (replicate c True)"

definition tril :: "bool list list \<Rightarrow> bool list list" where
  "tril M = map (\<lambda>(i, row). map (\<lambda>(j, x). if j \<le> i then x else False)
                                 (zip [0..<length row] row))
                (zip [0..<length M] M)"

text \<open>Lines 116-118; a negative size makes \<^verbatim>\<open>torch.ones\<close> raise.\<close>

definition build_causal_mask :: "int \<Rightarrow> error + bool list list" where
  "build_causal_mask msl =
     (if msl < 0 then Inl RuntimeError else Inr (tril (ones (nat msl) (nat msl))))"

definition setup_caches ::
  "('a, 'c) env \<Rightarrow> ('a, 'c) decoder \<Rightarrow> int \<Rightarrow> dtype \<Rightarrow> int option \<Rightarrow> int option
     \<Rightarrow> (unit, 'a, 'c) run" where
  "setup_caches env d batch_size dty enc dec =
     (let d1 = (case enc of None \<Rightarrow> d | Some e \<Rightarrow> d\<lparr>encoder_max_seq_len := Some e\<rparr>);
          d2 = (case dec of None \<Rightarrow> d1 | Some e \<Rightarrow> d1\<lparr>decoder_max_seq_len := Some e\<rparr>)
      in case setup_layers env (layers d2) batch_size dty enc dec of
           (Some e, ls) \<Rightarrow> \<lparr>outcome = Inl e, after = d2\<lparr>layers := ls\<rparr>, calls = []\<rparr>
         | (None, ls) \<Rightarrow>
             (case build_causal_mask (max_seq_len d2) of
                Inl e \<Rightarrow> \<lparr>outcome = Inl e, after = d2\<lparr>layers := ls\<rparr>, calls = []\<rparr>
              | Inr M \<Rightarrow>
                  \<lparr>outcome = Inr (), after = d2\<lparr>layers := ls, causal_mask := Some M\<rparr>,
                   calls = []\<rparr>))"

section \<open>Tensor operations used by the forward pass\<close>

text \<open>\<^verbatim>\<open>self.tok_embeddings(tokens)\<close>: an id outside \<open>[0, num_embeddings)\<close> raises.\<close>

definition embedding_lookup :: "'a embedding_table \<Rightarrow> tokens \<Rightarrow> error + 'a tensor" where
  "embedding_lookup E tk =
     (if list_all (list_all (\<lambda>t. 0 \<le> t \<and> t < int (num_embeddings E))) (ids tk)
      then Inr \<lparr>t_dtype = w_dtype E, dim_b = tok_b tk, dim_s = tok_s tk,
                dim_d = embedding_dim E,
                vals = map (map (\<lambda>t. weight E ! nat t)) (ids tk)\<rparr>
      else Inl IndexError)"

text \<open>
  \<^verbatim>\<open>self.causal_mask[None, input_pos]\<close>: every position selects a row of the mask, a
  negative one counting from the end, and a new leading axis of size 1 is added. A
  position outside \<open>[-L, L)\<close> raises.
\<close>

fun index_rows :: "bool list list \<Rightarrow> positions \<Rightarrow> mask" where
  "index_rows M (Scalar p) =
     Axis (map Scalar (M ! nat (if p < 0 then p + int (length M) else p)))"
| "index_rows M (Axis ps) = Axis (map (index_rows M) ps)"

definition gather_rows :: "bool list list \<Rightarrow> positions \<Rightarrow> error + mask" where
  "gather_rows M pos =
     (if list_all (\<lambda>p. - int (length M) \<le> p \<and> p < int (length M)) (elems pos)
      then Inr (Axis [index_rows M pos])
      else Inl IndexError)"

text \<open>\<^verbatim>\<open>h * torch.tensor(hidden_dim**0.5, dtype=h.dtype)\<close>, line 202.\<close>

definition scale_embeddings :: "('a, 'c) env \<Rightarrow> 'a tensor \<Rightarrow> 'a tensor" where
  "scale_embeddings env h =
     h\<lparr>vals := map (map (map (mul_sqrt env (t_dtype h) (dim_d h)))) (vals h)\<rparr>"

text \<open>
  \<^verbatim>\<open>F.linear(h, weight)\<close> with \<open>weight\<close> of shape \<open>[v, d]\<close>: the product with the
  transposed weight, \<open>out[i][j][k] = h[i][j] \<cdot> weight[k]\<close>. A width or dtype that does
  not match the weight raises.
\<close>

definition linear :: "('a, 'c) env \<Rightarrow> 'a tensor \<Rightarrow> 'a embedding_table \<Rightarrow> error + 'a tensor" where
  "linear env h E =
     (if t_dtype h \<noteq> w_dtype E \<or> dim_d h \<noteq> embedding_dim E then Inl RuntimeError
      else Inr \<lparr>t_dtype = t_dtype h, dim_b = dim_b h, dim_s = dim_s h,
                dim_d = num_embeddings E,
                vals = map (map (\<lambda>x. map (dot_product env (t_dtype h) x) (weight E)))
                           (vals h)\<rparr>)"

text \<open>\<^verbatim>\<open>.float()\<close>: a float32 tensor is returned as it is, any other is converted.\<close>

definition float_cast :: "('a, 'c) env \<Rightarrow> 'a tensor \<Rightarrow> 'a tensor" where
  "float_cast env h =
     (if t_dtype h = Float32 then h
      else h\<lparr>t_dtype := Float32,
             vals := map (map (map (to_float32 env (t_dtype h)))) (vals h)\<rparr>)"

text \<open>\<^verbatim>\<open>narrow(1, start, len)\<close>: the slice \<open>[start, start + len)\<close> of the sequence axis.\<close>

definition narrow :: "nat \<Rightarrow> nat \<Rightarrow> 'a tensor \<Rightarrow> 'a tensor" where
  "narrow start len h = h\<lparr>dim_s := len, vals := map (\<lambda>m. take len (drop start m)) (vals h)\<rparr>"

text \<open>
  \<^verbatim>\<open>h.chunk(chunks, dim=1)\<close>, as the tensor library computes it: the pieces have
  \<open>\<lceil>s / chunks\<rceil>\<close> positions each, the last one what is left; an empty sequence gives
  \<open>chunks\<close> empty pieces; \<open>chunks \<le> 0\<close> raises.
\<close>

definition chunk :: "int \<Rightarrow> 'a tensor \<Rightarrow> error + 'a tensor list" where
  "chunk chunks h =
     (if chunks \<le> 0 then Inl RuntimeError
      else
        let c = nat chunks;
            split_size = (dim_s h + c - 1) div c
        in if split_size = 0 then Inr (replicate c (narrow 0 0 h))
           else
             let num_splits = max ((dim_s h + split_size - 1) div split_size) 1;
                 last_split_size = split_size - (split_size * num_splits - dim_s h)
             in Inr (map (\<lambda>i. narrow (i * split_size)
                                 (if i < num_splits - 1 then split_size else last_split_size) h)
                         [0..<num_splits]))"

text \<open>The list comprehension of lines 137-140: the first projection that raises ends it.\<close>

fun linear_each ::
  "('a, 'c) env \<Rightarrow> 'a tensor list \<Rightarrow> 'a embedding_table \<Rightarrow> error + 'a tensor list" where
  "linear_each env [] E = Inr []"
| "linear_each env (c # cs) E =
     (case linear env c E of
        Inl e \<Rightarrow> Inl e
      | Inr y \<Rightarrow>
          (case linear_each env cs E of Inl e \<Rightarrow> Inl e | Inr ys \<Rightarrow> Inr (y # ys)))"

definition chunked_output :: "('a, 'c) env \<Rightarrow> ('a, 'c) decoder \<Rightarrow> 'a tensor \<Rightarrow> error + 'a tensor list" where
  "chunked_output env d last_hidden_state =
     (case chunk (num_output_chunks d) last_hidden_state of
        Inl e \<Rightarrow> Inl e
      | Inr cs \<Rightarrow> linear_each env cs (tok_embeddings d))"

text \<open>
  \<^verbatim>\<open>torch.cat(ts, dim=1)\<close>, the concatenation along the sequence axis that the spec
  compares the chunks with: it needs one tensor at least, and equal dtypes, batch sizes
  and widths.
\<close>

definition cat_seq :: "'a tensor list \<Rightarrow> error + 'a tensor" where
  "cat_seq ts =
     (case ts of
        [] \<Rightarrow> Inl RuntimeError
      | t # _ \<Rightarrow>
          if list_all (\<lambda>u. t_dtype u = t_dtype t \<and> dim_b u = dim_b t \<and> dim_d u = dim_d t) ts
          then Inr \<lparr>t_dtype = t_dtype t, dim_b = dim_b t,
                    dim_s = sum_list (map dim_s ts), dim_d = dim_d t,
                    vals = map (\<lambda>i. concat (map (\<lambda>u. vals u ! i) ts)) [0..<dim_b t]\<rparr>
          else Inl RuntimeError)"

section \<open>The forward pass\<close>

text \<open>
  Modelled from the spec: a layer is called as \<open>forward(hidden, mask, position)\<close> and
  mutates nothing but its own private state.
\<close>

definition layer_forward ::
  "('a, 'c) env \<Rightarrow> 'c layer \<Rightarrow> 'a tensor \<Rightarrow> mask option \<Rightarrow> positions option
     \<Rightarrow> (error + 'a tensor) \<times> 'c layer" where
  "layer_forward env l h m pos =
     (case attend env (cache_enabled l) (own_state l) h m pos of
        (r, c) \<Rightarrow> (r, l\<lparr>own_state := c\<rparr>))"

text \<open>Lines 187-198, the mode resolution.\<close>

definition resolve_mask ::
  "bool list list option \<Rightarrow> mask option \<Rightarrow> positions option \<Rightarrow> error + mask option" where
  "resolve_mask cm m input_pos =
     (case cm of
        None \<Rightarrow> Inr m
      | Some M \<Rightarrow>
          (case input_pos of
             None \<Rightarrow>
               Inl (ValueError ''Caches are setup, but the position of input token is missing'')
           | Some pos \<Rightarrow>
               (case m of
                  Some _ \<Rightarrow>
                    Inl (ValueError
                      ''An attention mask was set. Cannot use a non-causal mask for inference'')
                | None \<Rightarrow>
                    (case gather_rows M pos of Inl e \<Rightarrow> Inl e | Inr g \<Rightarrow> Inr (Some g)))))"

text \<open>The loop of lines 204-206; the third component lists the arguments of each call.\<close>

fun run_layers ::
  "('a, 'c) env \<Rightarrow> 'c layer list \<Rightarrow> 'a tensor \<Rightarrow> mask option \<Rightarrow> positions option
     \<Rightarrow> (error + 'a tensor) \<times> 'c layer list \<times> call list" where
  "run_layers env [] h m pos = (Inr h, [], [])"
| "run_layers env (l # ls) h m pos =
     (case layer_forward env l h m pos of
        (Inl e, l') \<Rightarrow> (Inl e, l' # ls, [(m, pos)])
      | (Inr h', l') \<Rightarrow>
          (case run_layers env ls h' m pos of
             (r, ls', cs) \<Rightarrow> (r, l' # ls', (m, pos) # cs)))"

text \<open>Lines 181-209: the hidden state after the final normalisation.\<close>

definition hidden_pass ::
  "('a, 'c) env \<Rightarrow> ('a, 'c) decoder \<Rightarrow> tokens \<Rightarrow> mask option \<Rightarrow> positions option
     \<Rightarrow> ('a tensor, 'a, 'c) run" where
  "hidden_pass env d tk m input_pos =
     (case embedding_lookup (tok_embeddings d) tk of
        Inl e \<Rightarrow> \<lparr>outcome = Inl e, after = d, calls = []\<rparr>
      | Inr h \<Rightarrow>
          (case resolve_mask (causal_mask d) m input_pos of
             Inl e \<Rightarrow> \<lparr>outcome = Inl e, after = d, calls = []\<rparr>
           | Inr m' \<Rightarrow>
               (let h1 = (if norm_embeddings d then scale_embeddings env h else h)
                in case run_layers env (layers d) h1 m' input_pos of
                     (r, ls, cs) \<Rightarrow>
                       \<lparr>outcome = (case r of Inl e \<Rightarrow> Inl e | Inr h2 \<Rightarrow> final_norm env h2),
                        after = d\<lparr>layers := ls\<rparr>, calls = cs\<rparr>)))"

text \<open>Lines 211-216, the output projection.\<close>

definition output_projection ::
  "('a, 'c) env \<Rightarrow> ('a, 'c) decoder \<Rightarrow> 'a tensor \<Rightarrow> error + 'a projected" where
  "output_projection env d h =
     (if num_output_chunks d > 0
      then (case chunked_output env d h of Inl e \<Rightarrow> Inl e | Inr ys \<Rightarrow> Inr (Chunks ys))
      else (case linear env h (tok_embeddings d) of
              Inl e \<Rightarrow> Inl e
            | Inr y \<Rightarrow> Inr (Logits (float_cast env y))))"

definition forward ::
  "('a, 'c) env \<Rightarrow> ('a, 'c) decoder \<Rightarrow> tokens \<Rightarrow> mask option \<Rightarrow> positions option
     \<Rightarrow> ('a projected, 'a, 'c) run" where
  "forward env d tk m input_pos =
     (let r = hidden_pass env d tk m input_pos
      in \<lparr>outcome = (case outcome r of Inl e \<Rightarrow> Inl e | Inr h \<Rightarrow> output_projection env d h),
          after = after r, calls = calls r\<rparr>)"

section \<open>Notions used by the statements\<close>



text \<open>
  The same for a decoder built with one layer at least from a layer whose cache is not
  enabled, when every \<^verbatim>\<open>setup_caches\<close> call returns normally.
\<close>

inductive established :: "('a, 'c) env \<Rightarrow> ('a, 'c) decoder \<Rightarrow> bool" for env where
  built: "0 < n \<Longrightarrow> \<not> cache_enabled l \<Longrightarrow> established env (init_decoder E l n msl nh hdim ne)"
| caches: "established env d \<Longrightarrow> outcome (setup_caches env d bs dty enc dec) = Inr ()
     \<Longrightarrow> established env (after (setup_caches env d bs dty enc dec))"
| chunks: "established env d \<Longrightarrow> established env (set_num_output_chunks d n)"
| forwarded: "established env d \<Longrightarrow> established env (after (forward env d tk m pos))"


text \<open>There is a layer, and every layer has its cache enabled exactly when the mask is present.\<close>

definition uniform :: "('a, 'c) decoder \<Rightarrow> bool" where
  "uniform d \<longleftrightarrow>
     layers d \<noteq> [] \<and> list_all (\<lambda>l. cache_enabled l = (causal_mask d \<noteq> None)) (layers d)"

section \<open>A small decoder\<close>

text \<open>
  Two layers, three tokens of width 2, four positions. Elements are integers with the exact
  inner product; a layer returns its input and counts its calls in its own state.
\<close>

definition demo_env :: "(int, nat) env" where
  "demo_env =
     \<lparr>dot_product = (\<lambda>_ x w. sum_list (map2 (*) x w)),
      to_float32 = (\<lambda>_ x. x),
      mul_sqrt = (\<lambda>_ _ x. x),
      final_norm = Inr,
      attend = (\<lambda>_ c h _ _. (Inr h, Suc c)),
      alloc_cache = (\<lambda>_ _ _ _ _. Inr 0)\<rparr>"

definition demo_table :: "int embedding_table" where
  "demo_table = \<lparr>num_embeddings = 3, embedding_dim = 2, w_dtype = BFloat16,
                  weight = [[1, 0], [0, 1], [1, 1]]\<rparr>"

definition demo_decoder :: "(int, nat) decoder" where
  "demo_decoder = init_decoder demo_table \<lparr>cache_enabled = False, own_state = 0\<rparr> 2 4 1 2 False"

definition demo_cached :: "(int, nat) decoder" where
  "demo_cached = after (setup_caches demo_env demo_decoder 1 BFloat16 None (Some 4))"

definition demo_tokens :: tokens where
  "demo_tokens = \<lparr>tok_b = 1, tok_s = 1, ids = [[2]]\<rparr>"

definition demo_pos :: positions where
  "demo_pos = Axis [Axis [Scalar 1]]"

definition demo_hidden :: "int tensor" where
  "demo_hidden = \<lparr>t_dtype = BFloat16, dim_b = 1, dim_s = 1, dim_d = 2, vals = [[[1, 1]]]\<rparr>"

text \<open>
  Hidden states of four and five positions with their projections, and the same decoder
  with a float32 embedding table.
\<close>

definition demo_hidden4 :: "int tensor" where
  "demo_hidden4 = \<lparr>t_dtype = BFloat16, dim_b = 1, dim_s = 4, dim_d = 2,
                    vals = [[[1, 0], [0, 1], [1, 1], [0, 1]]]\<rparr>"

definition demo_logits4 :: "int tensor" where
  "demo_logits4 = \<lparr>t_dtype = BFloat16, dim_b = 1, dim_s = 4, dim_d = 3,
                    vals = [[[1, 0, 1], [0, 1, 1], [1, 1, 2], [0, 1, 1]]]\<rparr>"

definition demo_tokens5 :: tokens where
  "demo_tokens5 = \<lparr>tok_b = 1, tok_s = 5, ids = [[0, 1, 2, 1, 0]]\<rparr>"

definition demo_hidden5 :: "int tensor" where
  "demo_hidden5 = \<lparr>t_dtype = BFloat16, dim_b = 1, dim_s = 5, dim_d = 2,
                    vals = [[[1, 0], [0, 1], [1, 1], [0, 1], [1, 0]]]\<rparr>"

definition demo_logits5 :: "int tensor" where
  "demo_logits5 = \<lparr>t_dtype = BFloat16, dim_b = 1, dim_s = 5, dim_d = 3,
                    vals = [[[1, 0, 1], [0, 1, 1], [1, 1, 2], [0, 1, 1], [1, 0, 1]]]\<rparr>"

definition demo_logits :: "int tensor" where
  "demo_logits = \<lparr>t_dtype = BFloat16, dim_b = 1, dim_s = 1, dim_d = 3, vals = [[[1, 1, 2]]]\<rparr>"

definition demo_decoder32 :: "(int, nat) decoder" where
  "demo_decoder32 =
     init_decoder (demo_table\<lparr>w_dtype := Float32\<rparr>) \<lparr>cache_enabled = False, own_state = 0\<rparr>
       2 4 1 2 False"

section \<open>Properties\<close>

lemma tril_ones: "tril (ones r c) = map (\<lambda>i. map (\<lambda>j. j \<le> i) [0..<c]) [0..<r]"
  by (auto simp: tril_def ones_def intro!: nth_equalityI)



lemma run_layers_flags:
  "run_layers env ls h m pos = (r, ls', cs) \<Longrightarrow> map cache_enabled ls' = map cache_enabled ls"
proof (induction ls arbitrary: h r ls' cs)
  case Nil
  then show ?case by simp
next
  case (Cons l ls)
  then show ?case
    by (auto simp: layer_forward_def split: prod.splits sum.splits)
qed

lemma hidden_pass_frame:
  "after (hidden_pass env d tk m pos) = d\<lparr>layers := layers (after (hidden_pass env d tk m pos))\<rparr>"
  by (simp add: hidden_pass_def Let_def split: sum.splits prod.splits)

lemma forward_after: "after (forward env d tk m pos) = after (hidden_pass env d tk m pos)"
  by (simp add: forward_def Let_def)


lemma forward_causal_mask: "causal_mask (after (forward env d tk m pos)) = causal_mask d"
  by (subst forward_after, subst hidden_pass_frame) simp


lemma forward_flags:
  "map cache_enabled (layers (after (forward env d tk m pos))) = map cache_enabled (layers d)"
  by (auto simp: forward_after hidden_pass_def Let_def dest: run_layers_flags
           split: sum.splits prod.splits)


lemma setup_caches_mask_cases:
  "causal_mask (after (setup_caches env d bs dty enc dec)) =
     (if outcome (setup_caches env d bs dty enc dec) = Inr ()
      then Some (tril (ones (nat (max_seq_len d)) (nat (max_seq_len d))))
      else causal_mask d)"
  by (simp add: setup_caches_def Let_def build_causal_mask_def
           split: option.splits prod.splits sum.splits)

lemma setup_caches_ok_nonneg:
  "outcome (setup_caches env d bs dty enc dec) = Inr () \<Longrightarrow> 0 \<le> max_seq_len d"
  by (simp add: setup_caches_def Let_def build_causal_mask_def
           split: option.splits prod.splits sum.splits if_splits)


lemma demo_cached_eq:
  "demo_cached =
     \<lparr>tok_embeddings = demo_table,
      layers = [\<lparr>cache_enabled = True, own_state = 0\<rparr>, \<lparr>cache_enabled = True, own_state = 0\<rparr>],
      max_seq_len = 4, num_heads = 1, head_dim = 2,
      causal_mask = Some [[True, False, False, False], [True, True, False, False],
                          [True, True, True, False], [True, True, True, True]],
      norm_embeddings = False, num_output_chunks = 0,
      encoder_max_seq_len = None, decoder_max_seq_len = Some 4\<rparr>"
  by (simp add: demo_cached_def demo_decoder_def demo_env_def init_decoder_def get_clones_def
        setup_caches_def layer_setup_caches_def build_causal_mask_def tril_def ones_def
        Let_def numeral_eq_Suc upt_rec)

lemma demo_setup_ok:
  "outcome (setup_caches demo_env demo_decoder 1 BFloat16 None (Some 4)) = Inr ()"
  by (simp add: demo_decoder_def demo_env_def init_decoder_def get_clones_def
        setup_caches_def layer_setup_caches_def build_causal_mask_def
        Let_def numeral_eq_Suc)


lemma demo_embedding:
  "embedding_lookup demo_table demo_tokens =
     Inr \<lparr>t_dtype = BFloat16, dim_b = 1, dim_s = 1, dim_d = 2, vals = [[[1, 1]]]\<rparr>"
  by (simp add: embedding_lookup_def demo_table_def demo_tokens_def)

lemma hidden_pass_rejected:
  "causal_mask d \<noteq> None \<Longrightarrow> input_pos = None \<or> m \<noteq> None \<Longrightarrow>
   after (hidden_pass env d tk m input_pos) = d \<and> calls (hidden_pass env d tk m input_pos) = [] \<and>
   (\<exists>e. outcome (hidden_pass env d tk m input_pos) = Inl e)"
  by (auto simp: hidden_pass_def resolve_mask_def split: sum.splits option.splits)



text \<open>
  Claim C2. When the causal mask is present and \<open>input_pos\<close> is absent, forward never
  returns logits; it raises the ValueError of line 189 whenever the embedding lookup
  of line 185, which comes first, goes through.
\<close>

theorem forward_requires_input_pos:
  assumes "causal_mask d \<noteq> None"
  shows "(\<exists>e. outcome (forward env d tk m None) = Inl e) \<and>
         (\<forall>h. embedding_lookup (tok_embeddings d) tk = Inr h \<longrightarrow>
            outcome (forward env d tk m None) =
              Inl (ValueError ''Caches are setup, but the position of input token is missing''))"
  using assms
  by (auto simp: forward_def hidden_pass_def resolve_mask_def Let_def
           split: sum.splits option.splits)

text \<open>
  Claim C3. When the causal mask is present and the caller supplies a mask, forward
  raises a ValueError (the one of line 189 when \<open>input_pos\<close> is absent as well, the one of
  line 193 otherwise) and no layer is handed the supplied mask.
\<close>

theorem forward_rejects_explicit_mask:
  assumes "causal_mask d \<noteq> None" and "embedding_lookup (tok_embeddings d) tk = Inr h"
  shows "outcome (forward env d tk (Some m) input_pos) =
           Inl (ValueError
             (if input_pos = None
              then ''Caches are setup, but the position of input token is missing''
              else ''An attention mask was set. Cannot use a non-causal mask for inference'')) \<and>
         calls (forward env d tk (Some m) input_pos) = []"
  using assms
  by (auto simp: forward_def hidden_pass_def resolve_mask_def Let_def
           split: sum.splits option.splits)

text \<open>
  Claim C9. A forward call that is rejected in cached mode, for a missing \<open>input_pos\<close> or
  for an explicit mask, invokes no layer and leaves the decoder as it was.
\<close>

theorem rejected_forward_leaves_state:
  assumes "causal_mask d \<noteq> None" and "input_pos = None \<or> m \<noteq> None"
  shows "after (forward env d tk m input_pos) = d \<and>
         calls (forward env d tk m input_pos) = [] \<and>
         (\<exists>e. outcome (forward env d tk m input_pos) = Inl e)"
  using hidden_pass_rejected[OF assms, of env tk]
  by (auto simp: forward_def Let_def)

text \<open>
  Claim C4. After a \<^verbatim>\<open>setup_caches\<close> call that returns, whatever the decoder held
  before, the causal mask is the \<open>L \<times> L\<close> matrix built by \<open>tril (ones L L)\<close> for
  \<open>L = max_seq_len\<close>, with \<open>M ! i ! j = (j \<le> i)\<close>; forward and
  \<^verbatim>\<open>set_num_output_chunks\<close> do not change the mask of a decoder.
\<close>

theorem setup_caches_builds_causal_mask:
  assumes "outcome (setup_caches env d bs dty enc dec) = Inr ()"
  shows "0 \<le> max_seq_len d \<and>
         (\<exists>M. causal_mask (after (setup_caches env d bs dty enc dec)) = Some M \<and>
              M = tril (ones (nat (max_seq_len d)) (nat (max_seq_len d))) \<and>
              length M = nat (max_seq_len d) \<and>
              (\<forall>i < nat (max_seq_len d). length (M ! i) = nat (max_seq_len d) \<and>
                 (\<forall>j < nat (max_seq_len d). M ! i ! j = (j \<le> i)))) \<and>
         causal_mask (after (forward env d' tk m pos)) = causal_mask d' \<and>
         causal_mask (set_num_output_chunks d' n) = causal_mask d'"
  using assms setup_caches_ok_nonneg[OF assms]
  by (simp add: setup_caches_mask_cases tril_ones forward_causal_mask set_num_output_chunks_def)

lemma setup_layers_ok:
  "setup_layers env ls bs dty enc dec = (None, ls') \<Longrightarrow>
     length ls' = length ls \<and> list_all cache_enabled ls'"
proof (induction ls arbitrary: ls')
  case Nil
  then show ?case by simp
next
  case (Cons l ls)
  then show ?case
    by (auto simp: layer_setup_caches_def split: sum.splits prod.splits)
qed

lemma setup_caches_ok_layers:
  assumes "outcome (setup_caches env d bs dty enc dec) = Inr ()"
  shows "length (layers (after (setup_caches env d bs dty enc dec))) = length (layers d) \<and>
         list_all cache_enabled (layers (after (setup_caches env d bs dty enc dec)))"
proof -
  let ?d2 = "case dec of None \<Rightarrow> (case enc of None \<Rightarrow> d | Some e \<Rightarrow> d\<lparr>encoder_max_seq_len := Some e\<rparr>)
             | Some e \<Rightarrow> (case enc of None \<Rightarrow> d | Some e \<Rightarrow> d\<lparr>encoder_max_seq_len := Some e\<rparr>)\<lparr>decoder_max_seq_len := Some e\<rparr>"
  have l2: "layers ?d2 = layers d" by (simp split: option.splits)
  obtain r ls where sl: "setup_layers env (layers d) bs dty enc dec = (r, ls)"
    by (cases "setup_layers env (layers d) bs dty enc dec")
  from assms sl l2 have r: "r = None"
    by (cases r) (simp_all add: setup_caches_def Let_def)
  from assms sl l2 r have "layers (after (setup_caches env d bs dty enc dec)) = ls"
    by (simp add: setup_caches_def Let_def split: sum.splits)
  with setup_layers_ok[OF sl[unfolded r]] show ?thesis by simp
qed

lemma uniform_flags:
  "map cache_enabled (layers d') = map cache_enabled (layers d) \<Longrightarrow>
   causal_mask d' = causal_mask d \<Longrightarrow> uniform d \<Longrightarrow> uniform d'"
proof -
  assume a: "map cache_enabled (layers d') = map cache_enabled (layers d)"
    and b: "causal_mask d' = causal_mask d" and u: "uniform d"
  have "list_all (\<lambda>l. cache_enabled l = (causal_mask d \<noteq> None)) (layers d) =
        list_all (\<lambda>f. f = (causal_mask d \<noteq> None)) (map cache_enabled (layers d))"
    by (simp add: list_all_iff)
  moreover have "list_all (\<lambda>l. cache_enabled l = (causal_mask d \<noteq> None)) (layers d') =
        list_all (\<lambda>f. f = (causal_mask d \<noteq> None)) (map cache_enabled (layers d'))"
    by (simp add: list_all_iff)
  moreover from a have "layers d' = [] \<longleftrightarrow> layers d = []"
    by (metis map_is_Nil_conv)
  ultimately show ?thesis using a b u by (simp add: uniform_def)
qed

lemma established_uniform: "established env d \<Longrightarrow> uniform d"
proof (induction rule: established.induct)
  case (built n l E msl nh hdim ne)
  then show ?case
    by (auto simp: uniform_def init_decoder_def get_clones_def list_all_iff)
next
  case (caches d bs dty enc dec)
  from setup_caches_ok_layers[OF caches(2)] caches(3)
  show ?case
    using caches(2)
    by (auto simp: uniform_def setup_caches_mask_cases list_all_iff)
next
  case (chunks d n)
  then show ?case by (simp add: uniform_def set_num_output_chunks_def)
next
  case (forwarded d tk m pos)
  then show ?case
    by (intro uniform_flags[OF forward_flags forward_causal_mask])
qed

text \<open>
  Claim C7, amended. The invariant does not hold in every state that the public
  operations reach (see \<open>reachable\<close> and the three states below). It holds in every
  established decoder, that is one built with a layer at least from a layer whose cache is
  not enabled and then used with \<^verbatim>\<open>setup_caches\<close> calls that return: there the causal
  mask is present exactly when \<^verbatim>\<open>caches_are_setup\<close> returns true, and absent exactly
  when it returns false; \<^verbatim>\<open>caches_are_setup\<close> returns the flag of layer 0, which all
  layers share. After such a construction both sides are false, after a
  \<^verbatim>\<open>setup_caches\<close> call that returns both are true.
\<close>

theorem causal_mask_iff_caches_setup:
  assumes "established (env :: ('a, 'c) env) d"
  shows "((causal_mask d \<noteq> None) \<longleftrightarrow> caches_are_setup d = Inr True) \<and>
         ((causal_mask d = None) \<longleftrightarrow> caches_are_setup d = Inr False) \<and>
         (\<exists>l ls. layers d = l # ls \<and> caches_are_setup d = Inr (cache_enabled l) \<and>
                 list_all (\<lambda>l'. cache_enabled l' = cache_enabled l) ls) \<and>
         (0 < n \<and> \<not> cache_enabled l0 \<longrightarrow>
            causal_mask (init_decoder E l0 n msl nh hdim ne) = None \<and>
            caches_are_setup (init_decoder E l0 n msl nh hdim ne :: ('a, 'c) decoder) = Inr False) \<and>
         (outcome (setup_caches env d bs dty enc dec) = Inr () \<longrightarrow>
            causal_mask (after (setup_caches env d bs dty enc dec)) \<noteq> None \<and>
            caches_are_setup (after (setup_caches env d bs dty enc dec)) = Inr True)"
proof -
  have inv: "((causal_mask x \<noteq> None) \<longleftrightarrow> caches_are_setup x = Inr True) \<and>
         ((causal_mask x = None) \<longleftrightarrow> caches_are_setup x = Inr False) \<and>
         (\<exists>l ls. layers x = l # ls \<and> caches_are_setup x = Inr (cache_enabled l) \<and>
                 list_all (\<lambda>l'. cache_enabled l' = cache_enabled l) ls)"
    if "established env x" for x :: "('a, 'c) decoder"
  proof -
    from established_uniform[OF that] obtain l ls where
      ls: "layers x = l # ls" and
      al: "list_all (\<lambda>l. cache_enabled l = (causal_mask x \<noteq> None)) (l # ls)"
      by (cases "layers x") (auto simp: uniform_def)
    then show ?thesis
      by (auto simp: caches_are_setup_def list_all_iff)
  qed
  have a: "0 < n \<and> \<not> cache_enabled l0 \<longrightarrow>
            causal_mask (init_decoder E l0 n msl nh hdim ne) = None \<and>
            caches_are_setup (init_decoder E l0 n msl nh hdim ne :: ('a, 'c) decoder) = Inr False"
    using inv[OF established.built[of n l0 env E msl nh hdim ne]]
    by (auto simp: init_decoder_def)
  have b: "outcome (setup_caches env d bs dty enc dec) = Inr () \<longrightarrow>
            causal_mask (after (setup_caches env d bs dty enc dec)) \<noteq> None \<and>
            caches_are_setup (after (setup_caches env d bs dty enc dec)) = Inr True"
    using inv[OF established.caches[OF assms, of bs dty enc dec]]
    by (auto simp: setup_caches_mask_cases)
  from inv[OF assms] a b show ?thesis by blast
qed

lemma demo_cached_embedding:
  "embedding_lookup (tok_embeddings demo_cached) demo_tokens = Inr demo_hidden"
  by (simp add: demo_cached_eq demo_embedding demo_hidden_def)

lemma demo_cached_mask:
  "causal_mask demo_cached =
     Some [[True, False, False, False], [True, True, False, False],
           [True, True, True, False], [True, True, True, True]]"
  by (simp add: demo_cached_eq)


theorem forward_requires_input_pos_witness:
  "causal_mask demo_cached \<noteq> None \<and>
   embedding_lookup (tok_embeddings demo_cached) demo_tokens = Inr demo_hidden \<and>
   outcome (forward demo_env demo_cached demo_tokens None None) =
     Inl (ValueError ''Caches are setup, but the position of input token is missing'')"
proof -
  have h: "causal_mask demo_cached \<noteq> None" by (simp add: demo_cached_mask)
  from forward_requires_input_pos[OF h, where env = demo_env and tk = demo_tokens and m = None] demo_cached_embedding h
  show ?thesis by blast
qed

theorem forward_rejects_explicit_mask_witness:
  "causal_mask demo_cached \<noteq> None \<and>
   embedding_lookup (tok_embeddings demo_cached) demo_tokens = Inr demo_hidden \<and>
   outcome (forward demo_env demo_cached demo_tokens (Some (Axis [])) (Some demo_pos)) =
     Inl (ValueError ''An attention mask was set. Cannot use a non-causal mask for inference'') \<and>
   calls (forward demo_env demo_cached demo_tokens (Some (Axis [])) (Some demo_pos)) = []"
proof -
  have h: "causal_mask demo_cached \<noteq> None" by (simp add: demo_cached_mask)
  from forward_rejects_explicit_mask[OF h demo_cached_embedding,
         where env = demo_env and m = "Axis []" and input_pos = "Some demo_pos"]
       demo_cached_embedding h
  show ?thesis by simp
qed

theorem rejected_forward_leaves_state_witness:
  "causal_mask demo_cached \<noteq> None \<and>
   after (forward demo_env demo_cached demo_tokens None None) = demo_cached \<and>
   calls (forward demo_env demo_cached demo_tokens None None) = []"
proof -
  have h: "causal_mask demo_cached \<noteq> None" by (simp add: demo_cached_mask)
  have h2: "(None :: positions option) = None \<or> (None :: mask option) \<noteq> None" by simp
  from rejected_forward_leaves_state[OF h h2, where env = demo_env and tk = demo_tokens] h
  show ?thesis by blast
qed

theorem setup_caches_builds_causal_mask_witness:
  "outcome (setup_caches demo_env demo_decoder 1 BFloat16 None (Some 4)) = Inr () \<and>
   causal_mask (after (setup_caches demo_env demo_decoder 1 BFloat16 None (Some 4))) =
     Some [[True, False, False, False], [True, True, False, False],
           [True, True, True, False], [True, True, True, True]]"
proof -
  have m: "max_seq_len demo_decoder = 4" by (simp add: demo_decoder_def init_decoder_def)
  have t: "tril (ones (nat 4) (nat 4)) =
     [[True, False, False, False], [True, True, False, False],
      [True, True, True, False], [True, True, True, True]]"
    by (simp add: tril_def ones_def numeral_eq_Suc upt_rec)
  from setup_caches_builds_causal_mask[OF demo_setup_ok] demo_setup_ok
  show ?thesis unfolding m t by blast
qed

theorem causal_mask_iff_caches_setup_witness:
  "established demo_env demo_decoder \<and>
   causal_mask demo_decoder = None \<and> caches_are_setup demo_decoder = Inr False \<and>
   outcome (setup_caches demo_env demo_decoder 1 BFloat16 None (Some 4)) = Inr () \<and>
   causal_mask demo_cached \<noteq> None \<and> caches_are_setup demo_cached = Inr True"
proof -
  have e: "established demo_env demo_decoder"
    unfolding demo_decoder_def by (rule established.built) simp_all
  have n: "causal_mask demo_decoder = None" by (simp add: demo_decoder_def init_decoder_def)
  from causal_mask_iff_caches_setup[OF e, where bs = 1 and dty = BFloat16 and enc = None
         and dec = "Some 4"] e n demo_setup_ok
  show ?thesis unfolding demo_cached_def by simp
qed

text \<open>
  Three states that the public operations reach and where the two sides differ: a
  decoder built from a layer whose cache is enabled already (no mask, yet
  \<^verbatim>\<open>caches_are_setup\<close> is true); a decoder with \<open>max_seq_len = -1\<close> after
  \<^verbatim>\<open>setup_caches\<close>, which sets the layers up and then raises at line 116 (no mask,
  \<^verbatim>\<open>caches_are_setup\<close> true); a decoder without layers after \<^verbatim>\<open>setup_caches\<close> (the mask
  is there, \<^verbatim>\<open>caches_are_setup\<close> raises).
\<close>

theorem causal_mask_iff_caches_setup_counterexample:
  "causal_mask (init_decoder demo_table \<lparr>cache_enabled = True, own_state = 0 :: nat\<rparr>
      2 4 1 2 False) = None \<and>
   caches_are_setup (init_decoder demo_table \<lparr>cache_enabled = True, own_state = 0 :: nat\<rparr>
      2 4 1 2 False) = Inr True \<and>
   outcome (setup_caches demo_env
      (init_decoder demo_table \<lparr>cache_enabled = False, own_state = 0\<rparr> 2 (- 1) 1 2 False)
      1 BFloat16 None (Some 4)) = Inl RuntimeError \<and>
   causal_mask (after (setup_caches demo_env
      (init_decoder demo_table \<lparr>cache_enabled = False, own_state = 0\<rparr> 2 (- 1) 1 2 False)
      1 BFloat16 None (Some 4))) = None \<and>
   caches_are_setup (after (setup_caches demo_env
      (init_decoder demo_table \<lparr>cache_enabled = False, own_state = 0\<rparr> 2 (- 1) 1 2 False)
      1 BFloat16 None (Some 4))) = Inr True \<and>
   causal_mask (after (setup_caches demo_env
      (init_decoder demo_table \<lparr>cache_enabled = False, own_state = 0\<rparr> 0 4 1 2 False)
      1 BFloat16 None (Some 4))) =
     Some [[True, False, False, False], [True, True, False, False],
           [True, True, True, False], [True, True, True, True]] \<and>
   caches_are_setup (after (setup_caches demo_env
      (init_decoder demo_table \<lparr>cache_enabled = False, own_state = 0\<rparr> 0 4 1 2 False)
      1 BFloat16 None (Some 4))) = Inl IndexError"
  by code_simp

subsection \<open>The output projection\<close>

lemma concat_pieces:
  "length xs = c * k \<Longrightarrow> concat (map (\<lambda>i. take k (drop (i * k) xs)) [0..<c]) = xs"
proof (induction c arbitrary: xs)
  case 0
  then show ?case by simp
next
  case (Suc c)
  have "concat (map (\<lambda>i. take k (drop (i * k) xs)) [0..<Suc c]) =
        take k xs @ concat (map (\<lambda>i. take k (drop (i * k) (drop k xs))) [0..<c])"
    by (simp add: map_upt_Suc add.commute del: upt_Suc)
  also have "\<dots> = take k xs @ drop k xs"
    using Suc.prems by (subst Suc.IH) simp_all
  finally show ?case by simp
qed

lemma ceil_div_exact: "0 < c \<Longrightarrow> (c * k + c - Suc 0) div c = (k::nat)"
proof -
  assume "0 < c"
  then obtain c' where c: "c = Suc c'" by (cases c) auto
  have "(c' + k * c) div c = k + c' div c"
    by (rule div_mult_self1) (simp add: c)
  then show ?thesis by (simp add: c ac_simps)
qed

lemma chunk_divisible:
  assumes "0 < c" and "dim_s h = c * k"
  shows "chunk (int c) h = Inr (map (\<lambda>i. narrow (i * k) k h) [0..<c])"
proof (cases "k = 0")
  case True
  with assms show ?thesis
    by (simp add: chunk_def Let_def map_replicate_const)
next
  case False
  have s: "(c * k + c - Suc 0) div c = k"
    using assms(1) by (rule ceil_div_exact)
  have n: "(c * k + k - Suc 0) div k = c"
    using ceil_div_exact[of k c] False by (simp add: mult.commute)
  show ?thesis
    using assms False by (simp add: chunk_def Let_def s n)
qed


lemma linear_narrow:
  "linear env h E = Inr y \<Longrightarrow> linear env (narrow st len h) E = Inr (narrow st len y)"
  by (auto simp: linear_def narrow_def take_map drop_map split: if_splits)

lemma linear_each_source:
  "linear_each env cs E = Inr ys \<Longrightarrow> u \<in> set ys \<Longrightarrow>
   \<exists>x \<in> set cs. linear env x E = Inr u"
  by (induction cs arbitrary: ys) (auto split: sum.splits)

lemma narrow_fields:
  "t_dtype (narrow st len h) = t_dtype h" "dim_b (narrow st len h) = dim_b h"
  "dim_d (narrow st len h) = dim_d h" "dim_s (narrow st len h) = len"
  by (simp_all add: narrow_def)

lemma chunk_empty:
  "0 < c \<Longrightarrow> (dim_s h + nat c - 1) div nat c = 0 \<Longrightarrow>
   chunk c h = Inr (replicate (nat c) (narrow 0 0 h))"
  by (simp add: chunk_def Let_def)

lemma chunk_split:
  "0 < c \<Longrightarrow> k \<noteq> 0 \<Longrightarrow> (dim_s h + nat c - 1) div nat c = k \<Longrightarrow>
   max ((dim_s h + k - 1) div k) 1 = n \<Longrightarrow>
   chunk c h =
     Inr (map (\<lambda>i. narrow (i * k) (if i < n - 1 then k else k - (k * n - dim_s h)) h) [0..<n])"
  by (simp add: chunk_def Let_def)

lemma chunk_nonpositive: "c \<le> 0 \<Longrightarrow> chunk c h = Inl RuntimeError"
  by (simp add: chunk_def)

lemma chunk_pieces:
  assumes "chunk c h = Inr cs" and "x \<in> set cs"
  shows "t_dtype x = t_dtype h \<and> dim_b x = dim_b h \<and> dim_d x = dim_d h"
proof -
  have c: "0 < c" using assms(1) chunk_nonpositive[of c h] by (cases "c \<le> 0") simp_all
  define k where "k = (dim_s h + nat c - 1) div nat c"
  define n where "n = max ((dim_s h + k - 1) div k) 1"
  show ?thesis
  proof (cases "k = 0")
    case True
    then have "chunk c h = Inr (replicate (nat c) (narrow 0 0 h))"
      unfolding k_def by (rule chunk_empty[OF c])
    with assms have "x \<in> set (replicate (nat c) (narrow 0 0 h))" by simp
    then have "x = narrow 0 0 h" by simp
    then show ?thesis by (simp only: narrow_fields)
  next
    case False
    have "chunk c h =
     Inr (map (\<lambda>i. narrow (i * k) (if i < n - 1 then k else k - (k * n - dim_s h)) h) [0..<n])"
      by (rule chunk_split[OF c False k_def[symmetric] n_def[symmetric]])
    with assms(1) have
      "cs = map (\<lambda>i. narrow (i * k) (if i < n - 1 then k else k - (k * n - dim_s h)) h) [0..<n]"
      by simp
    with assms(2) obtain st len where "x = narrow st len h" by auto
    then show ?thesis by (simp only: narrow_fields)
  qed
qed

lemma cat_seq_eq:
  assumes "ts \<noteq> []" and "list_all (\<lambda>u. t_dtype u = dt \<and> dim_b u = b \<and> dim_d u = dd) ts"
  shows "cat_seq ts = Inr \<lparr>t_dtype = dt, dim_b = b, dim_s = sum_list (map dim_s ts),
           dim_d = dd, vals = map (\<lambda>i. concat (map (\<lambda>u. vals u ! i) ts)) [0..<b]\<rparr>"
  using assms by (cases ts) (auto simp: cat_seq_def list_all_iff)

lemma cat_seq_pieces:
  assumes "0 < c" and "length (vals y) = dim_b y"
    and "list_all (\<lambda>m. length m = c * k) (vals y)" and "dim_s y = c * k"
  shows "cat_seq (map (\<lambda>i. narrow (i * k) k y) [0..<c]) = Inr (y :: 'a tensor)"
proof -
  have rows: "concat (map (\<lambda>u. vals u ! i) (map (\<lambda>i. narrow (i * k) k y) [0..<c])) = vals y ! i"
    if "i < dim_b y" for i
  proof -
    from that assms(2,3) have len: "length (vals y ! i) = c * k"
      by (simp add: list_all_length)
    have "concat (map (\<lambda>u. vals u ! i) (map (\<lambda>i. narrow (i * k) k y) [0..<c])) =
          concat (map (\<lambda>j. take k (drop (j * k) (vals y ! i))) [0..<c])"
      using that assms(2) by (simp add: narrow_def comp_def)
    then show ?thesis by (simp only: concat_pieces[OF len])
  qed
  have "map (\<lambda>i. concat (map (\<lambda>u. vals u ! i) (map (\<lambda>i. narrow (i * k) k y) [0..<c])))
          [0..<dim_b y] = map (\<lambda>i. vals y ! i) [0..<dim_b y]"
    using rows by simp
  also have "\<dots> = vals y" using assms(2) by (metis map_nth)
  finally have v: "map (\<lambda>i. concat (map (\<lambda>u. vals u ! i) (map (\<lambda>i. narrow (i * k) k y) [0..<c])))
          [0..<dim_b y] = vals y" .
  have sm: "sum_list (map dim_s (map (\<lambda>i. narrow (i * k) k y) [0..<c])) = c * k"
    by (simp add: narrow_def comp_def sum_list_triv)
  have al: "list_all (\<lambda>u. t_dtype u = t_dtype y \<and> dim_b u = dim_b y \<and> dim_d u = dim_d y)
              (map (\<lambda>i. narrow (i * k) k y) [0..<c])"
    by (simp add: list_all_iff narrow_def)
  have ne: "map (\<lambda>i. narrow (i * k) k y) [0..<c] \<noteq> []"
    using assms(1) by simp
  have "\<lparr>t_dtype = t_dtype y, dim_b = dim_b y, dim_s = c * k, dim_d = dim_d y, vals = vals y\<rparr> = y"
    using assms(4) by (cases y) simp
  with cat_seq_eq[OF ne al] show ?thesis
    by (simp only: v sm)
qed


lemma linear_each_upt:
  "(\<And>i. i \<in> set js \<Longrightarrow> linear env (g i) E = Inr (g' i)) \<Longrightarrow>
   linear_each env (map g js) E = Inr (map g' js)"
  by (induction js) simp_all

lemma linear_fields:
  assumes "linear env h E = Inr y"
  shows "t_dtype y = t_dtype h" "dim_b y = dim_b h" "dim_s y = dim_s h"
    "dim_d y = num_embeddings E"
    "vals y = map (map (\<lambda>x. map (dot_product env (t_dtype h) x) (weight E))) (vals h)"
  using assms by (auto simp: linear_def split: if_splits)

lemma float_cast_fields:
  "t_dtype (float_cast env y) = Float32" "dim_b (float_cast env y) = dim_b y"
  "dim_s (float_cast env y) = dim_s y" "dim_d (float_cast env y) = dim_d y"
  "vals (float_cast env y) =
     (if t_dtype y = Float32 then vals y
      else map (map (map (to_float32 env (t_dtype y)))) (vals y))"
  by (simp_all add: float_cast_def)

lemma linear_wf:
  assumes "wf_tensor h" and "wf_embedding E" and "linear env h E = Inr y"
  shows "wf_tensor y"
  using assms
  by (auto simp: wf_tensor_def wf_embedding_def linear_def list_all_iff split: if_splits)

lemma float_cast_wf: "wf_tensor y \<Longrightarrow> wf_tensor (float_cast env y)"
  by (auto simp: wf_tensor_def float_cast_def list_all_iff)

lemma narrow_wf:
  assumes "wf_tensor y" and "st + len \<le> dim_s y"
  shows "wf_tensor (narrow st len y)"
  using assms
  by (auto simp: wf_tensor_def narrow_def list_all_iff dest!: in_set_takeD in_set_dropD)

lemma forward_outcome:
  "outcome (hidden_pass env d tk m pos) = Inr hn \<Longrightarrow>
   outcome (forward env d tk m pos) = output_projection env d hn"
  by (simp add: forward_def Let_def)

text \<open>
  Claim C5. For a well-formed hidden state whose sequence length is divisible by the
  chunk count \<open>C > 0\<close>, and which the single-shot projection \<open>linear\<close> accepts with
  result \<open>y\<close>: the chunked projection returns \<open>C\<close> tensors, each of shape
  \<open>[b, s div C, vocab]\<close> (and well-formed when the embedding table is), and their
  concatenation along the sequence axis is \<open>y\<close>.
  The equality is exact for any element arithmetic that computes an output element from
  its input row and weight row alone (\<open>dot_product\<close>).
\<close>
theorem chunked_output_concat_equals_full:
  assumes "wf_tensor h" and "0 < num_output_chunks d"
    and "num_output_chunks d dvd int (dim_s h)"
    and "linear env h (tok_embeddings d) = Inr y"
  shows "\<exists>ys. chunked_output env d h = Inr ys \<and>
           length ys = nat (num_output_chunks d) \<and>
           list_all (\<lambda>u. dim_b u = dim_b h \<and>
                         dim_s u = dim_s h div nat (num_output_chunks d) \<and>
                         dim_d u = num_embeddings (tok_embeddings d)) ys \<and>
           (wf_embedding (tok_embeddings d) \<longrightarrow> list_all wf_tensor ys) \<and>
           cat_seq ys = Inr y"
proof -
  define c where "c = nat (num_output_chunks d)"
  have c: "0 < c" and ic: "num_output_chunks d = int c"
    using assms(2) by (simp_all add: c_def)
  from assms(3) obtain k' where "int (dim_s h) = int c * k'"
    unfolding ic by (auto simp: dvd_def)
  then have "int c dvd int (dim_s h)" by simp
  then have "c dvd dim_s h" by (simp only: int_dvd_int_iff)
  then obtain k where s: "dim_s h = c * k" by (auto simp: dvd_def)
  let ?ys = "map (\<lambda>i. narrow (i * k) k y) [0..<c]"
  have ch: "chunk (num_output_chunks d) h = Inr (map (\<lambda>i. narrow (i * k) k h) [0..<c])"
    unfolding ic by (rule chunk_divisible[OF c s])
  have le: "linear_each env (map (\<lambda>i. narrow (i * k) k h) [0..<c]) (tok_embeddings d) = Inr ?ys"
    by (rule linear_each_upt) (rule linear_narrow[OF assms(4)])
  have co: "chunked_output env d h = Inr ?ys"
    by (simp add: chunked_output_def ch le)
  have dims: "list_all (\<lambda>u. dim_b u = dim_b h \<and> dim_s u = dim_s h div c \<and>
                         dim_d u = num_embeddings (tok_embeddings d)) ?ys"
    using c by (simp add: list_all_iff narrow_fields linear_fields[OF assms(4)] s)
  have v: "length (vals y) = dim_b y"
    using assms(1) by (simp add: wf_tensor_def linear_fields[OF assms(4)])
  have r: "list_all (\<lambda>m. length m = c * k) (vals y)"
    using assms(1) by (simp add: wf_tensor_def linear_fields[OF assms(4)] list_all_iff s)
  have wf: "list_all wf_tensor ?ys" if e: "wf_embedding (tok_embeddings d)"
  proof -
    have y: "wf_tensor y" by (rule linear_wf[OF assms(1) e assms(4)])
    have "wf_tensor (narrow (i * k) k y)" if "i < c" for i
    proof (rule narrow_wf[OF y])
      from that have "Suc i * k \<le> c * k" by (intro mult_le_mono1) simp
      then show "i * k + k \<le> dim_s y"
        by (simp add: linear_fields[OF assms(4)] s add.commute)
    qed
    then show ?thesis by (simp add: list_all_iff)
  qed
  have "cat_seq ?ys = Inr y"
    by (rule cat_seq_pieces[OF c v r]) (simp add: linear_fields[OF assms(4)] s)
  with co dims wf show ?thesis by (auto simp: c_def[symmetric])
qed

text \<open>
  Claim C8. With chunking disabled, forward returns the single projection of the final
  normalised hidden state \<open>hn\<close> with the embedding weight,
  \<open>y[i][j][k] = hn[i][j] \<cdot> weight[k]\<close>, passed through \<^verbatim>\<open>.float()\<close>: its dtype is
  float32 whatever the dtype of \<open>hn\<close>, its shape is \<open>[b, s, vocab]\<close> for \<open>hn\<close> of shape
  \<open>[b, s, d]\<close>.
\<close>
theorem unchunked_logits_are_float32_projection:
  assumes "num_output_chunks d = 0" and "outcome (hidden_pass env d tk m pos) = Inr hn"
    and "linear env hn (tok_embeddings d) = Inr y"
  shows "outcome (forward env d tk m pos) = Inr (Logits (float_cast env y)) \<and>
         vals y = map (map (\<lambda>x. map (dot_product env (t_dtype hn) x)
                                     (weight (tok_embeddings d)))) (vals hn) \<and>
         t_dtype (float_cast env y) = Float32 \<and>
         dim_b (float_cast env y) = dim_b hn \<and>
         dim_s (float_cast env y) = dim_s hn \<and>
         dim_d (float_cast env y) = num_embeddings (tok_embeddings d) \<and>
         vals (float_cast env y) =
           (if t_dtype hn = Float32 then vals y
            else map (map (map (to_float32 env (t_dtype hn)))) (vals y)) \<and>
         (wf_tensor hn \<and> wf_embedding (tok_embeddings d) \<longrightarrow>
            wf_tensor (float_cast env y))"
  using assms linear_wf[OF _ _ assms(3), THEN float_cast_wf, of env]
  by (simp add: forward_outcome output_projection_def float_cast_fields
        linear_fields[OF assms(3)])

text \<open>
  Claim C10, amended. Every tensor returned by the chunked projection keeps the dtype of
  the hidden state, the non-chunked path returns float32; so the two differ in dtype
  exactly when the hidden state is not float32 itself.
\<close>
theorem chunked_output_keeps_dtype:
  assumes "chunked_output env d h = Inr ys" and "linear env h (tok_embeddings d) = Inr y"
  shows "list_all (\<lambda>u. t_dtype u = t_dtype h) ys \<and>
         t_dtype (float_cast env y) = Float32 \<and>
         list_all (\<lambda>u. (t_dtype u \<noteq> t_dtype (float_cast env y)) = (t_dtype h \<noteq> Float32)) ys"
proof -
  from assms(1) obtain cs where ch: "chunk (num_output_chunks d) h = Inr cs"
    and le: "linear_each env cs (tok_embeddings d) = Inr ys"
    by (auto simp: chunked_output_def split: sum.splits)
  have "t_dtype u = t_dtype h" if "u \<in> set ys" for u
  proof -
    from linear_each_source[OF le that] obtain x where "x \<in> set cs"
      and "linear env x (tok_embeddings d) = Inr u"
      by blast
    with chunk_pieces[OF ch] show ?thesis by (simp add: linear_fields)
  qed
  then show ?thesis by (simp add: list_all_iff float_cast_fields)
qed


lemma uneven_split:
  fixes c s k n :: nat
  assumes "0 < c" and "\<not> c dvd s" and k: "k = (s + c - 1) div c" and n: "n = (s + k - 1) div k"
  shows "0 < k \<and> 0 < n \<and> n \<le> c \<and> (n - 1) * k < s \<and> s \<le> n * k \<and>
         (n < c \<or> s - (n - 1) * k < k)"
proof -
  have s: "0 < s" using assms(2) by (cases s) auto
  have a: "k * c + (s + c - 1) mod c = s + c - 1"
    unfolding k by (rule div_mult_mod_eq)
  have b: "(s + c - 1) mod c < c" using assms(1) by simp
  from a b s have ck: "s \<le> k * c" by linarith
  have kpos: "0 < k"
  proof (rule ccontr)
    assume "\<not> 0 < k"
    then have "k * c = 0" by simp
    with ck s show False by simp
  qed
  have a': "n * k + (s + k - 1) mod k = s + k - 1"
    unfolding n by (rule div_mult_mod_eq)
  have b': "(s + k - 1) mod k < k" using kpos by simp
  from a' b' kpos have nk: "s \<le> n * k" by linarith
  have npos: "0 < n"
  proof (rule ccontr)
    assume "\<not> 0 < n"
    then have "n * k = 0" by simp
    with nk s show False by simp
  qed
  have pred: "(n - 1) * k = n * k - k" by (simp add: diff_mult_distrib)
  from a' kpos s have "n * k \<le> s + k - 1" by linarith
  with pred s kpos have lt: "(n - 1) * k < s" by linarith
  have nc: "n \<le> c"
  proof (rule ccontr)
    assume "\<not> n \<le> c"
    then have "Suc c \<le> n" by simp
    then have "Suc c * k \<le> n * k" by (rule mult_le_mono1)
    then have "c * k + k \<le> n * k" by (simp add: add.commute)
    moreover from a' have "n * k \<le> s + k - 1" by linarith
    ultimately show False using ck s kpos by (simp add: mult.commute)
  qed
  have last: "n < c \<or> s - (n - 1) * k < k"
  proof (rule ccontr)
    assume "\<not> (n < c \<or> s - (n - 1) * k < k)"
    then have e: "n = c" and f: "k \<le> s - (n - 1) * k" using nc by auto
    have nk_eq: "n * k = (n - 1) * k + k"
      using npos by (cases n) simp_all
    from f lt have "(n - 1) * k + k \<le> s" by linarith
    with nk nk_eq have "s = n * k" by linarith
    with e have "c dvd s" by simp
    with assms(2) show False by simp
  qed
  from kpos npos nc lt nk last show ?thesis by blast
qed


lemma split_sizes:
  assumes "0 < n"
  shows "map (\<lambda>i. if i < n - 1 then k else l) [0..<n] = replicate (n - 1) (k::nat) @ [l]"
proof -
  from assms obtain n' where n: "n = Suc n'" by (cases n) auto
  have "map (\<lambda>i. if i < n' then k else l) [0..<n'] = map (\<lambda>i. k) [0..<n']"
    by (rule map_cong) simp_all
  then show ?thesis by (simp add: n map_replicate_const)
qed

text \<open>
  Claim C6, amended. With \<open>C > 0\<close> chunks and a sequence length \<open>s\<close> that \<open>C\<close> does not
  divide, forward raises nothing for it: when the projection accepts the hidden state it
  returns \<open>n = \<lceil>s / k\<rceil>\<close> chunks for \<open>k = \<lceil>s / C\<rceil>\<close>, all of \<open>k\<close> positions but the last,
  which has the \<open>s - (n - 1) k > 0\<close> that are left; there are fewer than \<open>C\<close> chunks or the
  last one is shorter.
\<close>
theorem nondivisible_chunks_are_returned:
  assumes "0 < num_output_chunks d"
    and "outcome (hidden_pass env d tk m pos) = Inr hn"
    and "\<not> num_output_chunks d dvd int (dim_s hn)"
    and "linear env hn (tok_embeddings d) = Inr y"
    and "k = (dim_s hn + nat (num_output_chunks d) - 1) div nat (num_output_chunks d)"
    and "n = (dim_s hn + k - 1) div k"
  shows "\<exists>ys. outcome (forward env d tk m pos) = Inr (Chunks ys) \<and>
           map dim_s ys = replicate (n - 1) k @ [dim_s hn - (n - 1) * k] \<and>
           0 < n \<and> n \<le> nat (num_output_chunks d) \<and> 0 < dim_s hn - (n - 1) * k \<and>
           (n < nat (num_output_chunks d) \<or> dim_s hn - (n - 1) * k < k)"
proof -
  define c where "c = nat (num_output_chunks d)"
  have c: "0 < c" and ic: "num_output_chunks d = int c"
    using assms(1) by (simp_all add: c_def)
  have nd: "\<not> c dvd dim_s hn"
    using assms(3) unfolding ic by simp
  note U = uneven_split[OF c nd assms(5)[folded c_def] assms(6)]
  from U have kpos: "k \<noteq> 0" and npos: "0 < n" and lt: "(n - 1) * k < dim_s hn"
    and le: "dim_s hn \<le> n * k" by simp_all
  have mx: "max ((dim_s hn + k - 1) div k) 1 = n"
    using npos assms(6) by simp
  have nk: "k * n = (n - 1) * k + k"
    using npos by (cases n) simp_all
  from nk lt le have last: "k - (k * n - dim_s hn) = dim_s hn - (n - 1) * k"
    by (simp add: mult.commute) 
  let ?len = "\<lambda>i. if i < n - 1 then k else k - (k * n - dim_s hn)"
  let ?ys = "map (\<lambda>i. narrow (i * k) (?len i) y) [0..<n]"
  have ch: "chunk (num_output_chunks d) hn = Inr (map (\<lambda>i. narrow (i * k) (?len i) hn) [0..<n])"
    by (rule chunk_split[OF assms(1) kpos assms(5)[symmetric] mx])
  have le': "linear_each env (map (\<lambda>i. narrow (i * k) (?len i) hn) [0..<n]) (tok_embeddings d)
              = Inr ?ys"
    by (rule linear_each_upt) (rule linear_narrow[OF assms(4)])
  have co: "chunked_output env d hn = Inr ?ys"
    unfolding chunked_output_def ch sum.case le' by (rule refl)
  have out: "outcome (forward env d tk m pos) = Inr (Chunks ?ys)"
    unfolding forward_outcome[OF assms(2)] output_projection_def co
    using assms(1) by simp
  have "map dim_s ?ys = map ?len [0..<n]"
    by (simp add: narrow_fields comp_def)
  also have "\<dots> = replicate (n - 1) k @ [k - (k * n - dim_s hn)]"
    by (rule split_sizes[OF npos])
  finally have sz: "map dim_s ?ys = replicate (n - 1) k @ [dim_s hn - (n - 1) * k]"
    unfolding last .
  from U lt have rest: "0 < n \<and> n \<le> c \<and> 0 < dim_s hn - (n - 1) * k \<and>
           (n < c \<or> dim_s hn - (n - 1) * k < k)" by simp
  from out sz rest show ?thesis unfolding c_def by blast
qed

subsection \<open>The projection on the small decoder\<close>

lemma demo_linear4:
  "linear demo_env demo_hidden4 (tok_embeddings (set_num_output_chunks demo_decoder 2)) =
     Inr demo_logits4"
  by code_simp

lemma demo_hidden_pass:
  "outcome (hidden_pass demo_env demo_decoder demo_tokens None None) = Inr demo_hidden"
  by code_simp

lemma demo_hidden_pass5:
  "outcome (hidden_pass demo_env (set_num_output_chunks demo_decoder 4) demo_tokens5 None None)
     = Inr demo_hidden5"
  by code_simp

lemma demo_linear:
  "linear demo_env demo_hidden (tok_embeddings demo_decoder) = Inr demo_logits"
  by code_simp

lemma demo_linear5:
  "linear demo_env demo_hidden5 (tok_embeddings (set_num_output_chunks demo_decoder 4)) =
     Inr demo_logits5"
  by code_simp

lemma demo_chunked4:
  "chunked_output demo_env (set_num_output_chunks demo_decoder 2) demo_hidden4 =
     Inr [\<lparr>t_dtype = BFloat16, dim_b = 1, dim_s = 2, dim_d = 3,
             vals = [[[1, 0, 1], [0, 1, 1]]]\<rparr>,
          \<lparr>t_dtype = BFloat16, dim_b = 1, dim_s = 2, dim_d = 3,
             vals = [[[1, 1, 2], [0, 1, 1]]]\<rparr>]"
  by code_simp

text \<open>
  Five positions in four chunks: forward returns three chunks of 2, 2 and 1 positions.
\<close>

theorem nondivisible_chunks_counterexample:
  "outcome (forward demo_env (set_num_output_chunks demo_decoder 4) demo_tokens5 None None) =
     Inr (Chunks
       [\<lparr>t_dtype = BFloat16, dim_b = 1, dim_s = 2, dim_d = 3, vals = [[[1, 0, 1], [0, 1, 1]]]\<rparr>,
        \<lparr>t_dtype = BFloat16, dim_b = 1, dim_s = 2, dim_d = 3, vals = [[[1, 1, 2], [0, 1, 1]]]\<rparr>,
        \<lparr>t_dtype = BFloat16, dim_b = 1, dim_s = 1, dim_d = 3, vals = [[[1, 0, 1]]]\<rparr>])"
  by code_simp

text \<open>
  A float32 hidden state: the chunked and the non-chunked result are both float32.
\<close>

theorem float32_chunks_same_dtype_counterexample:
  "outcome (forward demo_env (set_num_output_chunks demo_decoder32 1) demo_tokens None None) =
     Inr (Chunks [\<lparr>t_dtype = Float32, dim_b = 1, dim_s = 1, dim_d = 3, vals = [[[1, 1, 2]]]\<rparr>]) \<and>
   outcome (forward demo_env demo_decoder32 demo_tokens None None) =
     Inr (Logits \<lparr>t_dtype = Float32, dim_b = 1, dim_s = 1, dim_d = 3, vals = [[[1, 1, 2]]]\<rparr>)"
  by code_simp


theorem chunked_output_concat_equals_full_witness:
  "wf_tensor demo_hidden4 \<and>
   0 < num_output_chunks (set_num_output_chunks demo_decoder 2) \<and>
   num_output_chunks (set_num_output_chunks demo_decoder 2) dvd int (dim_s demo_hidden4) \<and>
   linear demo_env demo_hidden4 (tok_embeddings (set_num_output_chunks demo_decoder 2)) =
     Inr demo_logits4 \<and>
   (\<exists>ys. chunked_output demo_env (set_num_output_chunks demo_decoder 2) demo_hidden4 = Inr ys \<and>
         length ys = 2 \<and> cat_seq ys = Inr demo_logits4)"
proof -
  have w: "wf_tensor demo_hidden4" by code_simp
  have c: "num_output_chunks (set_num_output_chunks demo_decoder 2) = 2"
    by (simp add: set_num_output_chunks_def)
  have p: "0 < num_output_chunks (set_num_output_chunks demo_decoder 2)"
    unfolding c by simp
  have s: "dim_s demo_hidden4 = 4" by (simp add: demo_hidden4_def)
  have dv: "num_output_chunks (set_num_output_chunks demo_decoder 2) dvd int (dim_s demo_hidden4)"
    unfolding c s by simp
  from chunked_output_concat_equals_full[OF w p dv demo_linear4]
  obtain ys where
    "chunked_output demo_env (set_num_output_chunks demo_decoder 2) demo_hidden4 = Inr ys"
    "length ys = nat (num_output_chunks (set_num_output_chunks demo_decoder 2))"
    "cat_seq ys = Inr demo_logits4"
    by blast
  then have "\<exists>ys. chunked_output demo_env (set_num_output_chunks demo_decoder 2) demo_hidden4
                   = Inr ys \<and> length ys = 2 \<and> cat_seq ys = Inr demo_logits4"
    unfolding c by auto
  with w p dv demo_linear4 show ?thesis by blast
qed

theorem unchunked_logits_are_float32_projection_witness:
  "num_output_chunks demo_decoder = 0 \<and>
   outcome (hidden_pass demo_env demo_decoder demo_tokens None None) = Inr demo_hidden \<and>
   linear demo_env demo_hidden (tok_embeddings demo_decoder) = Inr demo_logits \<and>
   outcome (forward demo_env demo_decoder demo_tokens None None) =
     Inr (Logits \<lparr>t_dtype = Float32, dim_b = 1, dim_s = 1, dim_d = 3, vals = [[[1, 1, 2]]]\<rparr>)"
proof -
  have z: "num_output_chunks demo_decoder = 0"
    by (simp add: demo_decoder_def init_decoder_def)
  have f: "float_cast demo_env demo_logits =
     \<lparr>t_dtype = Float32, dim_b = 1, dim_s = 1, dim_d = 3, vals = [[[1, 1, 2]]]\<rparr>"
    by code_simp
  from unchunked_logits_are_float32_projection[OF z demo_hidden_pass demo_linear]
  have "outcome (forward demo_env demo_decoder demo_tokens None None) =
     Inr (Logits (float_cast demo_env demo_logits))" by blast
  with z demo_hidden_pass demo_linear show ?thesis unfolding f by blast
qed

theorem chunked_output_keeps_dtype_witness:
  "chunked_output demo_env (set_num_output_chunks demo_decoder 2) demo_hidden4 =
     Inr [\<lparr>t_dtype = BFloat16, dim_b = 1, dim_s = 2, dim_d = 3,
             vals = [[[1, 0, 1], [0, 1, 1]]]\<rparr>,
          \<lparr>t_dtype = BFloat16, dim_b = 1, dim_s = 2, dim_d = 3,
             vals = [[[1, 1, 2], [0, 1, 1]]]\<rparr>] \<and>
   linear demo_env demo_hidden4 (tok_embeddings (set_num_output_chunks demo_decoder 2)) =
     Inr demo_logits4 \<and>
   t_dtype demo_hidden4 = BFloat16 \<and>
   t_dtype (float_cast demo_env demo_logits4) = Float32"
proof -
  have t: "t_dtype demo_hidden4 = BFloat16" by (simp add: demo_hidden4_def)
  from chunked_output_keeps_dtype[OF demo_chunked4 demo_linear4]
  have "t_dtype (float_cast demo_env demo_logits4) = Float32" by blast
  with demo_chunked4 demo_linear4 t show ?thesis by blast
qed

theorem nondivisible_chunks_are_returned_witness:
  "0 < num_output_chunks (set_num_output_chunks demo_decoder 4) \<and>
   outcome (hidden_pass demo_env (set_num_output_chunks demo_decoder 4) demo_tokens5 None None)
     = Inr demo_hidden5 \<and>
   \<not> num_output_chunks (set_num_output_chunks demo_decoder 4) dvd int (dim_s demo_hidden5) \<and>
   linear demo_env demo_hidden5 (tok_embeddings (set_num_output_chunks demo_decoder 4)) =
     Inr demo_logits5 \<and>
   (\<exists>ys. outcome (forward demo_env (set_num_output_chunks demo_decoder 4) demo_tokens5 None None)
           = Inr (Chunks ys) \<and> map dim_s ys = [2, 2, 1])"
proof -
  have c: "num_output_chunks (set_num_output_chunks demo_decoder 4) = 4"
    by (simp add: set_num_output_chunks_def)
  have p: "0 < num_output_chunks (set_num_output_chunks demo_decoder 4)"
    unfolding c by simp
  have s: "dim_s demo_hidden5 = 5" by (simp add: demo_hidden5_def)
  have nd: "\<not> num_output_chunks (set_num_output_chunks demo_decoder 4) dvd int (dim_s demo_hidden5)"
    unfolding c s by simp
  have k: "(2::nat) = (dim_s demo_hidden5 +
              nat (num_output_chunks (set_num_output_chunks demo_decoder 4)) - 1)
             div nat (num_output_chunks (set_num_output_chunks demo_decoder 4))"
    unfolding c s by simp
  have n: "(3::nat) = (dim_s demo_hidden5 + 2 - 1) div 2"
    unfolding s by simp
  from nondivisible_chunks_are_returned[OF p demo_hidden_pass5 nd demo_linear5 k n]
  obtain ys where
    o: "outcome (forward demo_env (set_num_output_chunks demo_decoder 4) demo_tokens5 None None)
        = Inr (Chunks ys)"
    and m: "map dim_s ys = replicate (3 - 1) 2 @ [dim_s demo_hidden5 - (3 - 1) * 2]"
    by blast
  have "replicate (3 - 1) 2 @ [dim_s demo_hidden5 - (3 - 1) * 2] = [2, 2, 1::nat]"
    unfolding s by (simp add: numeral_eq_Suc)
  with o m have "\<exists>ys. outcome (forward demo_env (set_num_output_chunks demo_decoder 4)
      demo_tokens5 None None) = Inr (Chunks ys) \<and> map dim_s ys = [2, 2, 1]"
    by auto
  with p demo_hidden_pass5 nd demo_linear5 show ?thesis by blast
qed

end
